theory Spec2Isabelle
  imports Main "HOL-Library.Word"
begin

unbundle bit_operations_syntax

section \<open>Data model\<close>

text \<open>
  A file on disk holds bytes. A Python \<open>str\<close> obtained by decoding a file is a sequence of
  Unicode code points, modelled as natural numbers; the digest returned by
  \<open>hexdigest()\<close> is an ASCII \<open>str\<close> and is modelled as a HOL \<open>string\<close>.
\<close>

type_synonym byte = "8 word"
type_synonym codepoint = nat
type_synonym pystr = "codepoint list"

text \<open>The exceptions that the calls made by \<open>hash\<close> can raise.\<close>

datatype error =
    FileNotFoundError
  | PermissionError
  | UnicodeDecodeError
  | UnicodeEncodeError

text \<open>
  The file system: a path is absent, or names a file that may not be read, or names a file
  with its content.
\<close>

datatype file_entry = Content "byte list" | Denied

type_synonym filesystem = "string \<Rightarrow> file_entry option"

text \<open>The namespace returned by argparse; \<open>args_file\<close> is its attribute \<open>args.file\<close>.\<close>

record args =
  args_file :: string

section \<open>\<open>open(args.file, encoding='utf-8')\<close> and \<open>f.readlines()\<close>\<close>

definition open_file :: "filesystem \<Rightarrow> string \<Rightarrow> error + byte list" where
  "open_file fs path =
     (case fs path of
        None \<Rightarrow> Inl FileNotFoundError
      | Some Denied \<Rightarrow> Inl PermissionError
      | Some (Content bs) \<Rightarrow> Inr bs)"

subsection \<open>Strict UTF-8 decoding\<close>

definition is_continuation :: "nat \<Rightarrow> bool" where
  "is_continuation b \<longleftrightarrow> 0x80 \<le> b \<and> b \<le> 0xBF"

definition is_surrogate :: "codepoint \<Rightarrow> bool" where
  "is_surrogate cp \<longleftrightarrow> 0xD800 \<le> cp \<and> cp \<le> 0xDFFF"

definition cons_cp :: "codepoint \<Rightarrow> error + pystr \<Rightarrow> error + pystr" where
  "cons_cp cp r = (case r of Inl e \<Rightarrow> Inl e | Inr t \<Rightarrow> Inr (cp # t))"

text \<open>
  The decoder works on the numeric values of the bytes. It accepts exactly the well-formed
  sequences: no stray continuation byte, no truncated sequence, no overlong form, no
  surrogate, nothing beyond U+10FFFF. Anything else raises \<open>UnicodeDecodeError\<close>.
\<close>

fun utf8_decode :: "nat list \<Rightarrow> error + pystr" where
  "utf8_decode [] = Inr []"
| "utf8_decode (b0 # bs) =
     (if b0 < 0x80 then cons_cp b0 (utf8_decode bs)
      else if 0xC2 \<le> b0 \<and> b0 \<le> 0xDF then
        (case bs of
           b1 # r \<Rightarrow>
             if is_continuation b1
             then cons_cp ((b0 - 0xC0) * 64 + (b1 - 0x80)) (utf8_decode r)
             else Inl UnicodeDecodeError
         | _ \<Rightarrow> Inl UnicodeDecodeError)
      else if 0xE0 \<le> b0 \<and> b0 \<le> 0xEF then
        (case bs of
           b1 # b2 # r \<Rightarrow>
             if is_continuation b1 \<and> is_continuation b2
                \<and> 0x800 \<le> (b0 - 0xE0) * 4096 + (b1 - 0x80) * 64 + (b2 - 0x80)
                \<and> \<not> is_surrogate ((b0 - 0xE0) * 4096 + (b1 - 0x80) * 64 + (b2 - 0x80))
             then cons_cp ((b0 - 0xE0) * 4096 + (b1 - 0x80) * 64 + (b2 - 0x80)) (utf8_decode r)
             else Inl UnicodeDecodeError
         | _ \<Rightarrow> Inl UnicodeDecodeError)
      else if 0xF0 \<le> b0 \<and> b0 \<le> 0xF4 then
        (case bs of
           b1 # b2 # b3 # r \<Rightarrow>
             if is_continuation b1 \<and> is_continuation b2 \<and> is_continuation b3
                \<and> 0x10000 \<le> (b0 - 0xF0) * 262144 + (b1 - 0x80) * 4096 + (b2 - 0x80) * 64 + (b3 - 0x80)
                \<and> (b0 - 0xF0) * 262144 + (b1 - 0x80) * 4096 + (b2 - 0x80) * 64 + (b3 - 0x80) \<le> 0x10FFFF
             then cons_cp ((b0 - 0xF0) * 262144 + (b1 - 0x80) * 4096 + (b2 - 0x80) * 64 + (b3 - 0x80))
                    (utf8_decode r)
             else Inl UnicodeDecodeError
         | _ \<Rightarrow> Inl UnicodeDecodeError)
      else Inl UnicodeDecodeError)"

definition bytes_decode :: "byte list \<Rightarrow> error + pystr" where
  "bytes_decode bs = utf8_decode (map unat bs)"

subsection \<open>Universal newlines and line splitting\<close>

text \<open>
  \<open>open\<close> is called without a \<open>newline\<close> argument, so the text layer runs in universal
  newlines mode: on input, \<open>\r\n\<close> and a lone \<open>\r\<close> are translated to \<open>\n\<close> before the
  text reaches the caller. \<open>readlines\<close> then cuts after every \<open>\n\<close>, keeping it.
\<close>

definition CR :: codepoint where "CR = 13"
definition LF :: codepoint where "LF = 10"

fun translate_newlines :: "pystr \<Rightarrow> pystr" where
  "translate_newlines [] = []"
| "translate_newlines [c] = [if c = CR then LF else c]"
| "translate_newlines (c # d # cs) =
     (if c = CR \<and> d = LF then LF # translate_newlines cs
      else if c = CR then LF # translate_newlines (d # cs)
      else c # translate_newlines (d # cs))"

fun split_lines :: "pystr \<Rightarrow> pystr list" where
  "split_lines [] = []"
| "split_lines (c # cs) =
     (if c = LF then [c] # split_lines cs
      else (case split_lines cs of
              [] \<Rightarrow> [[c]]
            | l # ls \<Rightarrow> (c # l) # ls))"

text \<open>The body of the first \<open>try\<close>: any failure of \<open>open\<close> or of the read is an exception.\<close>

definition read_lines :: "filesystem \<Rightarrow> string \<Rightarrow> error + pystr list" where
  "read_lines fs path =
     (case open_file fs path of
        Inl e \<Rightarrow> Inl e
      | Inr bs \<Rightarrow>
          (case bytes_decode bs of
             Inl e \<Rightarrow> Inl e
           | Inr t \<Rightarrow> Inr (split_lines (translate_newlines t))))"

subsection \<open>\<open>line.encode(encoding='utf-8')\<close>\<close>

definition utf8_encode_cp :: "codepoint \<Rightarrow> error + nat list" where
  "utf8_encode_cp cp =
     (if cp < 0x80 then Inr [cp]
      else if cp < 0x800 then Inr [0xC0 + cp div 64, 0x80 + cp mod 64]
      else if is_surrogate cp then Inl UnicodeEncodeError
      else if cp < 0x10000 then
        Inr [0xE0 + cp div 4096, 0x80 + cp div 64 mod 64, 0x80 + cp mod 64]
      else if cp < 0x110000 then
        Inr [0xF0 + cp div 262144, 0x80 + cp div 4096 mod 64, 0x80 + cp div 64 mod 64,
             0x80 + cp mod 64]
      else Inl UnicodeEncodeError)"

fun utf8_encode :: "pystr \<Rightarrow> error + nat list" where
  "utf8_encode [] = Inr []"
| "utf8_encode (cp # t) =
     (case utf8_encode_cp cp of
        Inl e \<Rightarrow> Inl e
      | Inr bs \<Rightarrow> (case utf8_encode t of Inl e \<Rightarrow> Inl e | Inr r \<Rightarrow> Inr (bs @ r)))"

definition str_encode :: "pystr \<Rightarrow> error + byte list" where
  "str_encode t = (case utf8_encode t of Inl e \<Rightarrow> Inl e | Inr ns \<Rightarrow> Inr (map of_nat ns))"

section \<open>\<open>hashlib.sha3_256\<close>\<close>

text \<open>
  SHA3-256 as in FIPS 202: the sponge over Keccak-f[1600] with rate 136 bytes, domain
  suffix \<open>0x06\<close> and 32 bytes of output. A lane is a 64-bit value held in a \<open>nat\<close>; the
  only operations that could leave 64 bits are the rotation and the complement, and both
  have the reduction written out.
\<close>

type_synonym lane = nat

definition rotl64 :: "lane \<Rightarrow> nat \<Rightarrow> lane" where
  "rotl64 w n = (w * 2 ^ n) mod 2 ^ 64 + w div 2 ^ (64 - n)"

definition not64 :: "lane \<Rightarrow> lane" where
  "not64 w = w XOR 0xFFFFFFFFFFFFFFFF"

definition round_constants :: "lane list" where
  "round_constants =
     [0x0000000000000001, 0x0000000000008082, 0x800000000000808A, 0x8000000080008000,
      0x000000000000808B, 0x0000000080000001, 0x8000000080008081, 0x8000000000008009,
      0x000000000000008A, 0x0000000000000088, 0x0000000080008009, 0x000000008000000A,
      0x000000008000808B, 0x800000000000008B, 0x8000000000008089, 0x8000000000008003,
      0x8000000000008002, 0x8000000000000080, 0x000000000000800A, 0x800000008000000A,
      0x8000000080008081, 0x8000000000008080, 0x0000000080000001, 0x8000000080008008]"

text \<open>Rotation offsets, indexed like the state: lane \<open>(x, y)\<close> is at position \<open>x + 5 * y\<close>.\<close>

definition rotation_offsets :: "nat list" where
  "rotation_offsets =
     [0, 1, 62, 28, 27, 36, 44, 6, 55, 20, 3, 10, 43, 25, 39, 41, 45, 15, 21, 8, 18, 2, 61,
      56, 14]"

definition theta_c :: "lane list \<Rightarrow> nat \<Rightarrow> lane" where
  "theta_c a x = a ! x XOR a ! (x + 5) XOR a ! (x + 10) XOR a ! (x + 15) XOR a ! (x + 20)"

definition theta_d :: "lane list \<Rightarrow> nat \<Rightarrow> lane" where
  "theta_d c x = c ! ((x + 4) mod 5) XOR rotl64 (c ! ((x + 1) mod 5)) 1"

definition theta_lane :: "lane list \<Rightarrow> lane list \<Rightarrow> nat \<Rightarrow> lane" where
  "theta_lane a d i = a ! i XOR d ! (i mod 5)"

definition theta :: "lane list \<Rightarrow> lane list" where
  "theta a = map (theta_lane a (map (theta_d (map (theta_c a) [0..<5])) [0..<5])) [0..<25]"

definition pi_source :: "nat \<Rightarrow> nat" where
  "pi_source j = (j mod 5 + 3 * (j div 5)) mod 5 + 5 * (j mod 5)"

definition rho_pi_lane :: "lane list \<Rightarrow> nat \<Rightarrow> lane" where
  "rho_pi_lane a j = rotl64 (a ! pi_source j) (rotation_offsets ! pi_source j)"

definition rho_pi :: "lane list \<Rightarrow> lane list" where
  "rho_pi a = map (rho_pi_lane a) [0..<25]"

definition chi_lane :: "lane list \<Rightarrow> nat \<Rightarrow> lane" where
  "chi_lane b i =
     b ! i XOR (not64 (b ! ((i mod 5 + 1) mod 5 + 5 * (i div 5)))
                AND b ! ((i mod 5 + 2) mod 5 + 5 * (i div 5)))"

definition chi :: "lane list \<Rightarrow> lane list" where
  "chi b = map (chi_lane b) [0..<25]"

definition iota :: "lane \<Rightarrow> lane list \<Rightarrow> lane list" where
  "iota rc a = a[0 := a ! 0 XOR rc]"

definition keccak_round :: "lane list \<Rightarrow> lane \<Rightarrow> lane list" where
  "keccak_round a rc = iota rc (chi (rho_pi (theta a)))"

definition keccak_f :: "lane list \<Rightarrow> lane list" where
  "keccak_f a = foldl keccak_round a round_constants"

text \<open>Padding to a multiple of the rate, little-endian lanes, absorbing and squeezing.\<close>

definition sha3_pad :: "byte list \<Rightarrow> byte list" where
  "sha3_pad m =
     (if 136 - length m mod 136 = 1 then m @ [0x86]
      else m @ [0x06] @ replicate (136 - length m mod 136 - 2) 0 @ [0x80])"

fun load_lane :: "byte list \<Rightarrow> lane" where
  "load_lane [] = 0"
| "load_lane (b # bs) = unat b + 256 * load_lane bs"

definition store_lane :: "lane \<Rightarrow> byte list" where
  "store_lane w = map (\<lambda>i. of_nat (w div 256 ^ i)) [0..<8]"

definition block_lane :: "byte list \<Rightarrow> nat \<Rightarrow> lane" where
  "block_lane blk i = (if i < 17 then load_lane (take 8 (drop (8 * i) blk)) else 0)"

definition xor_block :: "lane list \<Rightarrow> byte list \<Rightarrow> lane list" where
  "xor_block s blk = map (\<lambda>i. s ! i XOR block_lane blk i) [0..<25]"

definition absorb_block :: "byte list \<Rightarrow> lane list \<Rightarrow> nat \<Rightarrow> lane list" where
  "absorb_block p s k = keccak_f (xor_block s (take 136 (drop (136 * k) p)))"

definition absorb :: "byte list \<Rightarrow> lane list" where
  "absorb p = foldl (absorb_block p) (replicate 25 0) [0..<length p div 136]"

definition squeeze :: "lane list \<Rightarrow> byte list" where
  "squeeze s = take 32 (concat (map store_lane s))"

definition sha3_256 :: "byte list \<Rightarrow> byte list" where
  "sha3_256 m = squeeze (absorb (sha3_pad m))"

definition hex_char :: "nat \<Rightarrow> char" where
  "hex_char d = ''0123456789abcdef'' ! d"

definition hex_byte :: "byte \<Rightarrow> string" where
  "hex_byte b = [hex_char (unat b div 16), hex_char (unat b mod 16)]"

definition hexdigest :: "byte list \<Rightarrow> string" where
  "hexdigest m = concat (map hex_byte (sha3_256 m))"

section \<open>\<open>hash\<close>\<close>

text \<open>
  The hash object accumulates the bytes it is fed; \<open>update_lines\<close> is the loop
  \<open>for line in lines: h.update(line.encode(encoding='utf-8'))\<close>, which stops at the first
  line that fails to encode.
\<close>

fun update_lines :: "byte list \<Rightarrow> pystr list \<Rightarrow> error + byte list" where
  "update_lines h [] = Inr h"
| "update_lines h (line # ls) =
     (case str_encode line of
        Inl e \<Rightarrow> Inl e
      | Inr bs \<Rightarrow> update_lines (h @ bs) ls)"

text \<open>The first \<open>try\<close>/\<open>except\<close>: \<open>lines\<close>.\<close>

definition file_lines :: "filesystem \<Rightarrow> args \<Rightarrow> pystr list" where
  "file_lines fs a = (case read_lines fs (args_file a) of Inl e \<Rightarrow> [] | Inr ls \<Rightarrow> ls)"

text \<open>The second \<open>try\<close>/\<open>except\<close>: \<open>digest\<close>, with \<open>None\<close> for a failure.\<close>

definition lines_digest :: "pystr list \<Rightarrow> string option" where
  "lines_digest ls =
     (case update_lines [] ls of
        Inl e \<Rightarrow> None
      | Inr m \<Rightarrow> Some (hexdigest m))"

definition EMPTY_DIGEST :: string where
  "EMPTY_DIGEST = ''a7ffc6f8bf1ed76651c14756a061d662f580ff4de43b49fa82d80a4b80f8434a''"

text \<open>\<open>print(x)\<close> writes \<open>x\<close> and a newline to standard output; \<open>print(None)\<close> writes \<open>None\<close>.\<close>

definition print_line :: "string \<Rightarrow> string" where
  "print_line s = s @ [CHR 0x0A]"

definition str_of :: "string option \<Rightarrow> string" where
  "str_of v = (case v of None \<Rightarrow> ''None'' | Some s \<Rightarrow> s)"

text \<open>
  \<open>hash\<close> yields the value it returns and the text it writes to standard output. In print
  mode the function falls off its end, which returns \<open>None\<close>.
\<close>

definition hash :: "filesystem \<Rightarrow> args \<Rightarrow> bool \<Rightarrow> string option \<times> string" where
  "hash fs a shouldReturn =
     (let lines = file_lines fs a;
          digest = lines_digest lines
      in if length lines = 0 \<or> digest = None \<or> digest = Some EMPTY_DIGEST then
           (if shouldReturn then (None, [])
            else (None, print_line ''nocontent''))
         else
           (if shouldReturn then (digest, [])
            else (None, print_line (str_of digest))))"

section \<open>Reading\<close>

lemma file_lines_error: "read_lines fs (args_file a) = Inl e \<Longrightarrow> file_lines fs a = []"
  by (simp add: file_lines_def)

lemma hash_no_lines:
  "file_lines fs a = [] \<Longrightarrow>
     hash fs a True = (None, []) \<and> hash fs a False = (None, print_line ''nocontent'')"
  by (simp add: hash_def Let_def)

lemma read_lines_missing: "fs p = None \<Longrightarrow> read_lines fs p = Inl FileNotFoundError"
  by (simp add: read_lines_def open_file_def)

lemma read_lines_empty_file: "fs p = Some (Content []) \<Longrightarrow> read_lines fs p = Inr []"
  by (simp add: read_lines_def open_file_def bytes_decode_def)

text \<open>
  C3. A path that names no file and a path that names a file of zero bytes are treated
  alike: in print mode exactly \<open>nocontent\<close> (and the newline that \<open>print\<close> adds) is written
  to standard output, in return mode the result is \<open>None\<close> and nothing is written.
\<close>

theorem missing_and_empty_file_nocontent:
  assumes "fs (args_file a) = None \<or> fs (args_file a) = Some (Content [])"
  shows "hash fs a False = (None, ''nocontent'' @ [CHR 0x0A]) \<and> hash fs a True = (None, [])"
proof -
  from assms have "file_lines fs a = []"
    by (auto simp: file_lines_def read_lines_missing read_lines_empty_file)
  then show ?thesis
    using hash_no_lines [of fs a] by (simp add: print_line_def)
qed

theorem missing_and_empty_file_nocontent_witness:
  "hash (\<lambda>p. None) \<lparr>args_file = ''build.txt''\<rparr> False = (None, ''nocontent'' @ [CHR 0x0A])
   \<and> hash (\<lambda>p. None) \<lparr>args_file = ''build.txt''\<rparr> True = (None, [])
   \<and> hash (\<lambda>p. Some (Content [])) \<lparr>args_file = ''build.txt''\<rparr> False = (None, ''nocontent'' @ [CHR 0x0A])
   \<and> hash (\<lambda>p. Some (Content [])) \<lparr>args_file = ''build.txt''\<rparr> True = (None, [])"
  using missing_and_empty_file_nocontent [of "\<lambda>p. None" "\<lparr>args_file = ''build.txt''\<rparr>"]
    missing_and_empty_file_nocontent [of "\<lambda>p. Some (Content [])" "\<lparr>args_file = ''build.txt''\<rparr>"]
  by simp

end
